theory Spec2Isabelle
  imports Complex_Main
begin

section \<open>Errors\<close>

text \<open>
  The exceptions raised by \<^verbatim>\<open>app.py\<close>. A function that can raise returns the
  exception (if any) together with the state reached when it was raised, since Python
  keeps every mutation made before the \<^verbatim>\<open>raise\<close>.
\<close>

datatype error = ValueError | AttributeError | KeyError

section \<open>State and StateMachine\<close>

text \<open>
  \<^verbatim>\<open>class State\<close>: the only attribute the base class ever tests is \<^verbatim>\<open>parent\<close>, with
  \<^verbatim>\<open>hasattr(self, "parent")\<close>; \<open>has_parent\<close> records whether \<^verbatim>\<open>set_parent\<close> has run.
  Subclasses extend the record.
\<close>

record State =
  has_parent :: bool

definition set_parent :: "'a State_scheme \<Rightarrow> 'a State_scheme" where
  "set_parent st = st\<lparr>has_parent := True\<rparr>"

text \<open>
  A hook of a state (\<^verbatim>\<open>on_enter\<close>, \<^verbatim>\<open>on_exit\<close>) is a method of the state object run
  for its effect on the rest of the program, the state \<open>'w\<close>. The hooks of \<^verbatim>\<open>app.py\<close>
  write their parent's velocity, the manager's particle list and attributes of the state
  object; none assigns \<^verbatim>\<open>state_map\<close>, \<^verbatim>\<open>_state_key\<close> or \<^verbatim>\<open>state\<close>.
\<close>

type_synonym ('st, 'w) hook = "'st \<Rightarrow> 'w \<Rightarrow> error option \<times> 'w"

definition State_on_enter :: "('a State_scheme, 'w) hook" where
  "State_on_enter st wd = (if \<not> has_parent st then (Some AttributeError, wd) else (None, wd))"

definition State_on_exit :: "('a State_scheme, 'w) hook" where
  "State_on_exit st wd = (if \<not> has_parent st then (Some AttributeError, wd) else (None, wd))"

text \<open>
  \<^verbatim>\<open>class StateMachine\<close>: the dict \<^verbatim>\<open>state_map\<close>, the private \<^verbatim>\<open>_state_key\<close> and the
  current \<^verbatim>\<open>state\<close>.
\<close>

record ('k, 'st) StateMachine =
  state_map :: "'k \<rightharpoonup> 'st"
  priv_state_key :: 'k
  state :: 'st

definition init_state_machine ::
  "('k \<rightharpoonup> 'a State_scheme) \<Rightarrow> 'k \<Rightarrow> error + ('k, 'a State_scheme) StateMachine" where
  "init_state_machine smap starting_state_key =
     (case smap starting_state_key of
        None \<Rightarrow> Inl KeyError
      | Some st \<Rightarrow>
          Inr \<lparr>state_map = (\<lambda>k. map_option set_parent (smap k)),
               priv_state_key = starting_state_key,
               state = set_parent st\<rparr>)"

text \<open>The getter of the property \<^verbatim>\<open>state_key\<close>: its body is a single \<^verbatim>\<open>raise\<close>.\<close>

definition state_key_getter :: "('k, 'st) StateMachine \<Rightarrow> error + 'k" where
  "state_key_getter m = Inl AttributeError"

text \<open>
  The setter of \<^verbatim>\<open>state_key\<close>. Besides the exception and the state it returns the
  list of hook calls it made, in order: a ghost trace, there to state which hooks ran.
\<close>

datatype 'st hook_call = OnExit 'st | OnEnter 'st

definition state_key_setter ::
  "('st, 'w) hook \<Rightarrow> ('st, 'w) hook \<Rightarrow> 'k \<Rightarrow> ('k, 'st) StateMachine \<times> 'w \<Rightarrow>
   error option \<times> 'st hook_call list \<times> (('k, 'st) StateMachine \<times> 'w)" where
  "state_key_setter on_exit on_enter new_state_key mw =
     (case mw of (m, wd) \<Rightarrow>
       (case state_map m new_state_key of
          None \<Rightarrow> (Some ValueError, [], (m, wd))
        | Some new_state \<Rightarrow>
            if priv_state_key m = new_state_key then (None, [], (m, wd))
            else
              (case on_exit (state m) wd of
                 (Some e, wd1) \<Rightarrow> (Some e, [OnExit (state m)], (m, wd1))
               | (None, wd1) \<Rightarrow>
                   (case on_enter new_state wd1 of
                      (e, wd2) \<Rightarrow>
                        (e, [OnExit (state m), OnEnter new_state],
                         (m\<lparr>priv_state_key := new_state_key, state := new_state\<rparr>, wd2))))))"

section \<open>The player's states\<close>

datatype PlayerStateKey = GROUND | AIR | CLIMB | DEAD

datatype PlayerStateClass =
  PlayerGroundState | PlayerAirState | PlayerClimbState | PlayerDeathState

record PlayerState = State +
  cls :: PlayerStateClass

definition fresh_state :: "PlayerStateClass \<Rightarrow> PlayerState" where
  "fresh_state c = \<lparr>has_parent = False, cls = c\<rparr>"

definition Player_state_map :: "PlayerStateKey \<rightharpoonup> PlayerState" where
  "Player_state_map =
     [GROUND \<mapsto> fresh_state PlayerGroundState,
      AIR \<mapsto> fresh_state PlayerAirState,
      CLIMB \<mapsto> fresh_state PlayerClimbState,
      DEAD \<mapsto> fresh_state PlayerDeathState]"

text \<open>
  The machine of a player after \<^verbatim>\<open>Player.__init__\<close>, which calls
  \<^verbatim>\<open>init_state_machine\<close> with the four states and the key \<^verbatim>\<open>GROUND\<close>.
\<close>

definition Player_machine :: "(PlayerStateKey, PlayerState) StateMachine" where
  "Player_machine =
     \<lparr>state_map = (\<lambda>k. map_option set_parent (Player_state_map k)),
      priv_state_key = GROUND,
      state = set_parent (fresh_state PlayerGroundState)\<rparr>"

section \<open>Entities\<close>

text \<open>
  Coordinates, sizes and velocities are Python numbers (ints and floats mixed); they are
  modelled as reals, so rounding of floats is left out. The attributes \<^verbatim>\<open>x\<close>, \<^verbatim>\<open>y\<close>,
  \<^verbatim>\<open>w\<close>, \<^verbatim>\<open>h\<close>, \<^verbatim>\<open>dx\<close>, \<^verbatim>\<open>dy\<close> carry the prefix \<open>e_\<close>.
\<close>

record Entity =
  e_x :: real
  e_y :: real
  e_w :: real
  e_h :: real
  is_active :: bool
  is_alive :: bool
  is_colliding :: bool

record MovableEntity = Entity +
  e_dx :: real
  e_dy :: real
  is_facing_right :: bool

record DeathSprite = MovableEntity +
  marker_tile :: "int \<times> int"
  transparent_color :: int
  flip_horizontal :: bool
  flip_vertical :: bool
  cur_lifespan :: int
  feels_gravity :: bool

text \<open>\<^verbatim>\<open>Entity.__init__\<close> and \<^verbatim>\<open>MovableEntity.__init__\<close>.\<close>

definition new_Entity :: "real \<Rightarrow> real \<Rightarrow> real \<Rightarrow> real \<Rightarrow> Entity" where
  "new_Entity px py pw ph =
     \<lparr>e_x = px, e_y = py, e_w = pw, e_h = ph,
      is_active = True, is_alive = True, is_colliding = False\<rparr>"

definition new_MovableEntity :: "real \<Rightarrow> real \<Rightarrow> real \<Rightarrow> real \<Rightarrow> MovableEntity" where
  "new_MovableEntity px py pw ph =
     \<lparr>e_x = px, e_y = py, e_w = pw, e_h = ph,
      is_active = True, is_alive = True, is_colliding = False,
      e_dx = 0, e_dy = 0, is_facing_right = True\<rparr>"

definition DEFAULT_TRANSPARENT_COLOR :: int where
  "DEFAULT_TRANSPARENT_COLOR = 2"

definition DEAD_HERO :: "int \<times> int" where
  "DEAD_HERO = (3, 1)"

definition SPARKLES :: "int \<times> int" where
  "SPARKLES = (3, 8)"

text \<open>
  The constructor chain \<^verbatim>\<open>Entity.__init__\<close>, \<^verbatim>\<open>MovableEntity.__init__\<close>,
  \<^verbatim>\<open>DefaultMovableEntity.__init__\<close>, \<^verbatim>\<open>DeathSprite.__init__\<close>, with the arguments in the
  order of the last one.
\<close>

definition new_DeathSprite ::
  "real \<Rightarrow> real \<Rightarrow> real \<Rightarrow> real \<Rightarrow> int \<times> int \<Rightarrow> int \<Rightarrow> bool \<Rightarrow> bool \<Rightarrow> real \<Rightarrow> real \<Rightarrow> int \<Rightarrow> bool
   \<Rightarrow> DeathSprite" where
  "new_DeathSprite px py pw ph marker tc fh fv pdx pdy lifespan_ticks grav =
     \<lparr>e_x = px, e_y = py, e_w = pw, e_h = ph,
      is_active = True, is_alive = True, is_colliding = False,
      e_dx = pdx, e_dy = pdy, is_facing_right = True,
      marker_tile = marker, transparent_color = tc,
      flip_horizontal = fh, flip_vertical = fv,
      cur_lifespan = lifespan_ticks, feels_gravity = grav\<rparr>"

text \<open>
  The part of the program that a collision between an entity and its partner reads and
  writes:
  \<^item> \<open>this\<close>: the entity whose method runs (\<^verbatim>\<open>self\<close> in \<^verbatim>\<open>collide_with\<close>, \<^verbatim>\<open>this\<close> in
    \<^verbatim>\<open>pushback_entity\<close>);
  \<^item> \<open>other\<close>: the partner, and \<open>other_machine\<close>, its state machine when it is a
    \<^verbatim>\<open>Player\<close> (\<^verbatim>\<open>isinstance(other, Player)\<close> is \<open>other_machine wd \<noteq> None\<close>);
  \<^item> \<open>coins\<close> and \<open>particles\<close>: the attributes of the \<^verbatim>\<open>GameManager\<close> singleton;
  \<^item> \<open>death_cur_lifespan\<close>: the attribute \<^verbatim>\<open>cur_lifespan\<close> of the player's
    \<^verbatim>\<open>PlayerDeathState\<close> object, absent until \<^verbatim>\<open>on_enter\<close> sets it;
  \<^item> \<open>random_draws\<close>, \<open>random_pos\<close>: the values that the calls into the module
    \<^verbatim>\<open>random\<close> return, in order, and the number of calls made so far.
  Further attributes of subclasses live in the extension of the record.
\<close>

record world =
  this :: Entity
  other :: MovableEntity
  other_machine :: "(PlayerStateKey, PlayerState) StateMachine option"
  coins :: int
  particles :: "DeathSprite list"
  death_cur_lifespan :: "int option"
  random_draws :: "nat \<Rightarrow> real"
  random_pos :: nat

subsection \<open>Hooks of the player's states\<close>

text \<open>
  \<^verbatim>\<open>PlayerDeathState.on_enter\<close>, the only hook a subclass of \<^verbatim>\<open>State\<close> overrides;
  the parent of the state is the player, \<open>other\<close>.
\<close>

definition PlayerDeathState_on_enter :: "(PlayerState, 'a world_scheme) hook" where
  "PlayerDeathState_on_enter st wd =
     (if \<not> has_parent st then (Some AttributeError, wd)
      else
        let par = (other wd)\<lparr>e_dx := 0, e_dy := 0\<rparr>;
            sprite = new_DeathSprite (e_x par) (e_y par) (e_w par) (e_h par) DEAD_HERO
                       DEFAULT_TRANSPARENT_COLOR (e_dx par < 0) True
                       (random_draws wd (random_pos wd)) (- 3) 70 True
        in (None, wd\<lparr>other := par,
                     death_cur_lifespan := Some 70,
                     particles := particles wd @ [sprite],
                     random_pos := random_pos wd + 1\<rparr>))"

definition Player_on_enter :: "(PlayerState, 'a world_scheme) hook" where
  "Player_on_enter st wd =
     (if cls st = PlayerDeathState then PlayerDeathState_on_enter st wd
      else State_on_enter st wd)"

definition Player_on_exit :: "(PlayerState, 'a world_scheme) hook" where
  "Player_on_exit st wd = State_on_exit st wd"

section \<open>Collision between two entities\<close>

definition collide_aabb ::
  "real \<Rightarrow> real \<Rightarrow> real \<Rightarrow> real \<Rightarrow> real \<Rightarrow> real \<Rightarrow> real \<Rightarrow> real \<Rightarrow> bool" where
  "collide_aabb x1 y1 w1 h1 x2 y2 w2 h2 =
     (x1 < x2 + w2 \<and> x1 + w1 > x2 \<and> y1 < y2 + h2 \<and> y1 + h1 > y2)"

text \<open>
  \<^verbatim>\<open>Entity.collide_with\<close>. The methods \<^verbatim>\<open>on_collision\<close> and \<^verbatim>\<open>on_collision_end\<close> are
  virtual, so they are parameters. The result is the returned boolean, the list of
  methods invoked (a ghost trace) and the state.
\<close>

datatype collision_call = OnCollision | OnCollisionEnd

definition collide_with ::
  "('a world_scheme \<Rightarrow> 'a world_scheme) \<Rightarrow> ('a world_scheme \<Rightarrow> 'a world_scheme) \<Rightarrow>
   'a world_scheme \<Rightarrow> bool \<times> collision_call list \<times> 'a world_scheme" where
  "collide_with on_collision on_collision_end wd =
     (if collide_aabb (e_x (this wd)) (e_y (this wd)) (e_w (this wd)) (e_h (this wd))
           (e_x (other wd)) (e_y (other wd)) (e_w (other wd)) (e_h (other wd))
      then
        let wd1 = on_collision wd
        in (True, [OnCollision], wd1\<lparr>this := (this wd1)\<lparr>is_colliding := True\<rparr>\<rparr>)
      else if is_colliding (this wd) then
        let wd1 = on_collision_end wd
        in (False, [OnCollisionEnd], wd1\<lparr>this := (this wd1)\<lparr>is_colliding := False\<rparr>\<rparr>)
      else (False, [], wd))"

text \<open>The methods of the base class: both bodies are \<^verbatim>\<open>pass\<close>.\<close>

definition Entity_on_collision :: "'a world_scheme \<Rightarrow> 'a world_scheme" where
  "Entity_on_collision wd = wd"

definition Entity_on_collision_end :: "'a world_scheme \<Rightarrow> 'a world_scheme" where
  "Entity_on_collision_end wd = wd"

text \<open>
  A sequence of calls of \<^verbatim>\<open>collide_with\<close> on one pair, one per tick. Each element of
  the list stands for everything the program does between two calls (the updates that
  move the entities). The result lists, per call, the boolean returned and the methods
  invoked.
\<close>

fun collide_run ::
  "('a world_scheme \<Rightarrow> 'a world_scheme) \<Rightarrow> ('a world_scheme \<Rightarrow> 'a world_scheme) \<Rightarrow>
   ('a world_scheme \<Rightarrow> 'a world_scheme) list \<Rightarrow> 'a world_scheme \<Rightarrow>
   (bool \<times> collision_call list) list" where
  "collide_run on_collision on_collision_end [] wd = []"
| "collide_run on_collision on_collision_end (between # rest) wd =
     (case collide_with on_collision on_collision_end (between wd) of
        (r, calls, wd1) \<Rightarrow> (r, calls) # collide_run on_collision on_collision_end rest wd1)"

text \<open>The state after the same sequence of calls.\<close>

fun collide_run_state ::
  "('a world_scheme \<Rightarrow> 'a world_scheme) \<Rightarrow> ('a world_scheme \<Rightarrow> 'a world_scheme) \<Rightarrow>
   ('a world_scheme \<Rightarrow> 'a world_scheme) list \<Rightarrow> 'a world_scheme \<Rightarrow> 'a world_scheme" where
  "collide_run_state on_collision on_collision_end [] wd = wd"
| "collide_run_state on_collision on_collision_end (between # rest) wd =
     (case collide_with on_collision on_collision_end (between wd) of
        (r, calls, wd1) \<Rightarrow> collide_run_state on_collision on_collision_end rest wd1)"

text \<open>
  What a sequence of calls invokes, from the stored flag before the first call and the
  booleans the calls return: \<^verbatim>\<open>on_collision\<close> at every call that returns true,
  \<^verbatim>\<open>on_collision_end\<close> at a call that returns false while the flag is set.
\<close>

fun calls_expected :: "bool \<Rightarrow> bool list \<Rightarrow> collision_call list list" where
  "calls_expected flag [] = []"
| "calls_expected flag (r # rs) =
     (if r then [OnCollision] else if flag then [OnCollisionEnd] else []) # calls_expected r rs"

subsection \<open>Coin\<close>

text \<open>
  \<^verbatim>\<open>Coin.die\<close> and \<^verbatim>\<open>Coin.on_collision\<close>. The two calls of \<^verbatim>\<open>random.choice([-1, 1])\<close>
  take the next two values of \<open>random_draws\<close>.
\<close>

definition Coin_die :: "'a world_scheme \<Rightarrow> 'a world_scheme" where
  "Coin_die wd =
     (let self = (this wd)\<lparr>is_alive := False\<rparr>;
          sprite = new_DeathSprite (e_x self) (e_y self)
                     (e_w self * random_draws wd (random_pos wd))
                     (e_h self * random_draws wd (random_pos wd + 1))
                     SPARKLES DEFAULT_TRANSPARENT_COLOR False False 0 0 6 False
      in wd\<lparr>this := self,
            particles := particles wd @ [sprite],
            random_pos := random_pos wd + 2\<rparr>)"

definition Coin_on_collision :: "'a world_scheme \<Rightarrow> 'a world_scheme" where
  "Coin_on_collision wd =
     (if other_machine wd \<noteq> None then Coin_die (wd\<lparr>coins := coins wd + 1\<rparr>) else wd)"

section \<open>The pushback resolver\<close>

text \<open>
  The parameters of \<^verbatim>\<open>pushback_entity\<close> after \<^verbatim>\<open>this\<close> and \<^verbatim>\<open>other\<close>, and their
  defaults. A callback is a closure of the caller: a function on the state, or \<open>None\<close>.
\<close>

record 'w pushback_args =
  horz_pushback :: real
  vert_pushback :: real
  on_hit :: "('w \<Rightarrow> 'w) option"
  on_hit_below :: "('w \<Rightarrow> 'w) option"
  on_hit_above :: "('w \<Rightarrow> 'w) option"
  on_hit_left :: "('w \<Rightarrow> 'w) option"
  on_hit_right :: "('w \<Rightarrow> 'w) option"
  pushback_x_right :: bool
  pushback_x_left :: bool
  pushback_y_up :: bool
  pushback_y_down :: bool

definition default_args :: "'w pushback_args" where
  "default_args =
     \<lparr>horz_pushback = 0, vert_pushback = 0,
      on_hit = None, on_hit_below = None, on_hit_above = None,
      on_hit_left = None, on_hit_right = None,
      pushback_x_right = True, pushback_x_left = True,
      pushback_y_up = True, pushback_y_down = True\<rparr>"

datatype hit_call = OnHit | OnHitBelow | OnHitAbove | OnHitLeft | OnHitRight

text \<open>\<^verbatim>\<open>if cb is not None: cb()\<close>, with the call recorded.\<close>

definition call_opt :: "('w \<Rightarrow> 'w) option \<Rightarrow> hit_call \<Rightarrow> 'w \<Rightarrow> hit_call list \<times> 'w" where
  "call_opt cb tag wd = (case cb of None \<Rightarrow> ([], wd) | Some f \<Rightarrow> ([tag], f wd))"

text \<open>
  The end of a branch that resolved a side: \<^verbatim>\<open>at_least_one_hit = True\<close>, then
  \<^verbatim>\<open>if at_least_one_hit and on_hit is not None: on_hit()\<close>.
\<close>

definition call_on_hit ::
  "'w pushback_args \<Rightarrow> hit_call list \<times> 'w \<Rightarrow> error option \<times> hit_call list \<times> 'w" where
  "call_on_hit args cw =
     (case cw of (calls, wd) \<Rightarrow>
        (case call_opt (on_hit args) OnHit wd of (calls2, wd2) \<Rightarrow> (None, calls @ calls2, wd2)))"

definition apply_horz_pushback ::
  "'w pushback_args \<Rightarrow> 'a world_scheme \<Rightarrow> 'a world_scheme" where
  "apply_horz_pushback args wd =
     (if pushback_x_left args \<and> e_dx (other wd) > 0
        then wd\<lparr>other := (other wd)\<lparr>e_dx := - horz_pushback args\<rparr>\<rparr>
      else if pushback_x_right args \<and> e_dx (other wd) < 0
        then wd\<lparr>other := (other wd)\<lparr>e_dx := horz_pushback args\<rparr>\<rparr>
      else wd)"

definition apply_vert_pushback ::
  "'w pushback_args \<Rightarrow> 'a world_scheme \<Rightarrow> 'a world_scheme" where
  "apply_vert_pushback args wd =
     (if pushback_y_up args \<and> e_dy (other wd) > 0
        then wd\<lparr>other := (other wd)\<lparr>e_dy := - vert_pushback args\<rparr>\<rparr>
      else if pushback_y_down args \<and> e_dy (other wd) < 0
        then wd\<lparr>other := (other wd)\<lparr>e_dy := vert_pushback args\<rparr>\<rparr>
      else wd)"

text \<open>
  \<^verbatim>\<open>other.state_key = key\<close> for a player \<open>other\<close> whose machine is \<open>m\<close>: the setter
  with the hooks of the player's states.
\<close>

definition Player_set_state_key ::
  "PlayerStateKey \<Rightarrow> (PlayerStateKey, PlayerState) StateMachine \<Rightarrow> 'a world_scheme \<Rightarrow>
   error option \<times> 'a world_scheme" where
  "Player_set_state_key key m wd =
     (case state_key_setter Player_on_exit Player_on_enter key (m, wd) of
        (e, hooks, (m1, wd1)) \<Rightarrow> (e, wd1\<lparr>other_machine := Some m1\<rparr>))"

text \<open>
  The locals \<^verbatim>\<open>left_overlap\<close>, \<^verbatim>\<open>right_overlap\<close>, \<^verbatim>\<open>top_overlap\<close>, \<^verbatim>\<open>bottom_overlap\<close>
  and \<^verbatim>\<open>min_overlap\<close> of \<^verbatim>\<open>pushback_entity\<close>, computed on entry.
\<close>

definition left_overlap :: "'a world_scheme \<Rightarrow> real" where
  "left_overlap wd = (e_x (other wd) + e_w (other wd)) - e_x (this wd)"

definition right_overlap :: "'a world_scheme \<Rightarrow> real" where
  "right_overlap wd = (e_x (this wd) + e_w (this wd)) - e_x (other wd)"

definition top_overlap :: "'a world_scheme \<Rightarrow> real" where
  "top_overlap wd = (e_y (other wd) + e_h (other wd)) - e_y (this wd)"

definition bottom_overlap :: "'a world_scheme \<Rightarrow> real" where
  "bottom_overlap wd = (e_y (this wd) + e_h (this wd)) - e_y (other wd)"

definition min_overlap :: "'a world_scheme \<Rightarrow> real" where
  "min_overlap wd =
     min (left_overlap wd) (min (right_overlap wd) (min (top_overlap wd) (bottom_overlap wd)))"

definition pushback_entity ::
  "'a world_scheme pushback_args \<Rightarrow> 'a world_scheme \<Rightarrow>
   error option \<times> hit_call list \<times> 'a world_scheme" where
  "pushback_entity args wd =
     (let pushback_x = (pushback_x_right args \<or> pushback_x_left args);
          pushback_y = (pushback_y_up args \<or> pushback_y_down args)
      in
        if min_overlap wd = left_overlap wd \<and> e_dx (other wd) > 0 then
          call_on_hit args (call_opt (on_hit_right args) OnHitRight
            (if pushback_x
             then apply_horz_pushback args
                    (wd\<lparr>other := (other wd)\<lparr>e_x := e_x (this wd) - e_w (other wd)\<rparr>\<rparr>)
             else wd))
        else if min_overlap wd = right_overlap wd \<and> e_dx (other wd) < 0 then
          call_on_hit args (call_opt (on_hit_left args) OnHitLeft
            (if pushback_x
             then apply_horz_pushback args
                    (wd\<lparr>other := (other wd)\<lparr>e_x := e_x (this wd) + e_w (this wd)\<rparr>\<rparr>)
             else wd))
        else if min_overlap wd = bottom_overlap wd \<and> e_dy (other wd) < 0 then
          call_on_hit args (call_opt (on_hit_below args) OnHitBelow
            (if pushback_y
             then apply_vert_pushback args
                    (wd\<lparr>other := (other wd)\<lparr>e_y := e_y (this wd) + e_h (this wd)\<rparr>\<rparr>)
             else wd))
        else if min_overlap wd = top_overlap wd \<and> e_dy (other wd) > 0 then
          (case (if pushback_y
                 then
                   let wd1 = apply_vert_pushback args
                               (wd\<lparr>other := (other wd)\<lparr>e_y := e_y (this wd) - e_h (other wd)\<rparr>\<rparr>)
                   in (case other_machine wd1 of
                         Some m \<Rightarrow> Player_set_state_key GROUND m wd1
                       | None \<Rightarrow> (None, wd1))
                 else (None, wd)) of
             (Some e, wd2) \<Rightarrow> (Some e, [], wd2)
           | (None, wd2) \<Rightarrow> call_on_hit args (call_opt (on_hit_above args) OnHitAbove wd2))
        else (None, [], wd))"

section \<open>Tile-grid checks\<close>

definition TILE_SIZE :: int where
  "TILE_SIZE = 8"


text \<open>
  \<^verbatim>\<open>get_tile\<close> reads the tilemaps of the library pyxel; they are a parameter, from a
  tilemap index and tile coordinates to a tile id.
\<close>

type_synonym tilemaps = "nat \<Rightarrow> int \<times> int \<Rightarrow> int \<times> int"






section \<open>Pruning a collection\<close>

text \<open>
  A collection of the manager is a Python list of objects. An object is its reference;
  \<^verbatim>\<open>list.remove\<close> compares with \<^verbatim>\<open>==\<close>, which is identity for these classes, so it
  removes the first occurrence of the reference. The heap gives the object behind a
  reference.

  \<^verbatim>\<open>for entity in entities\<close> walks the list by an index that grows by one per step and
  stops when the index reaches the current length; the body removes from the same list.
\<close>

type_synonym ref = nat

function cleanup_loop :: "(ref \<Rightarrow> 'a Entity_scheme) \<Rightarrow> nat \<Rightarrow> ref list \<Rightarrow> ref list" where
  "cleanup_loop heap i entities =
     (if i < length entities then
        (let entity = entities ! i
         in if \<not> is_alive (heap entity)
            then cleanup_loop heap (i + 1) (remove1 entity entities)
            else cleanup_loop heap (i + 1) entities)
      else entities)"
  by pat_completeness auto
termination
  by (relation "measure (\<lambda>(heap, i, entities). length entities - i)")
     (auto simp: length_remove1)

declare cleanup_loop.simps [simp del]

definition cleanup_entities :: "(ref \<Rightarrow> 'a Entity_scheme) \<Rightarrow> ref list \<Rightarrow> ref list" where
  "cleanup_entities heap entities = cleanup_loop heap 0 entities"

section \<open>Camera\<close>

definition SCREEN_WIDTH :: int where
  "SCREEN_WIDTH = 256"

definition SCREEN_HEIGHT :: int where
  "SCREEN_HEIGHT = 240"

definition SCROLL_BORDER_X :: int where
  "SCROLL_BORDER_X = 240 * TILE_SIZE"

definition SCROLL_BORDER_Y :: int where
  "SCROLL_BORDER_Y = 16 * TILE_SIZE"

text \<open>
  \<^verbatim>\<open>class Camera\<close>. The target is a reference to the player; \<open>target\<close> holds the
  player as it is when \<^verbatim>\<open>update\<close> reads it.
\<close>

record Camera =
  c_x :: real
  c_y :: real
  c_w :: real
  c_h :: real
  xoff :: real
  yoff :: real
  target :: "MovableEntity option"

text \<open>\<^verbatim>\<open>Camera(x, y, w, h)\<close> with the default offsets and no target.\<close>

definition new_Camera :: "real \<Rightarrow> real \<Rightarrow> real \<Rightarrow> real \<Rightarrow> Camera" where
  "new_Camera px py pw ph =
     \<lparr>c_x = px, c_y = py, c_w = pw, c_h = ph,
      xoff = real_of_int ((- SCREEN_WIDTH) div 2),
      yoff = real_of_int ((- SCREEN_HEIGHT) div 2),
      target = None\<rparr>"

definition Camera_update :: "Camera \<Rightarrow> Camera" where
  "Camera_update c =
     (case target c of
        None \<Rightarrow> c
      | Some t \<Rightarrow>
          let c1 = c\<lparr>c_x := e_x t + xoff c\<rparr>;
              c2 = c1\<lparr>c_x := min (real_of_int SCROLL_BORDER_X - c_w c1) (max 0 (c_x c1))\<rparr>;
              c3 = c2\<lparr>c_y := min 0 (e_y t + yoff c2)\<rparr>;
              c4 = c3\<lparr>c_y := min (real_of_int SCROLL_BORDER_Y - c_h c3) (max 0 (c_y c3))\<rparr>
          in c4)"

section \<open>Concrete states\<close>

text \<open>
  States on which the theorems below are evaluated. \<open>new_world\<close> pairs an entity with a
  partner under a fresh \<^verbatim>\<open>GameManager\<close> (no coins, no particles).
\<close>

definition new_world ::
  "Entity \<Rightarrow> MovableEntity \<Rightarrow> (PlayerStateKey, PlayerState) StateMachine option \<Rightarrow> world" where
  "new_world t ot m =
     \<lparr>this = t, other = ot, other_machine = m, coins = 0, particles = [],
      death_cur_lifespan = None, random_draws = (\<lambda>n. 1), random_pos = 0\<rparr>"

text \<open>The player's machine in the state \<^verbatim>\<open>AIR\<close>.\<close>

definition airborne_machine :: "(PlayerStateKey, PlayerState) StateMachine" where
  "airborne_machine =
     Player_machine\<lparr>priv_state_key := AIR, state := set_parent (fresh_state PlayerAirState)\<rparr>"

text \<open>A machine with two registered states only, so that \<^verbatim>\<open>DEAD\<close> is an unknown key.\<close>

definition two_state_machine :: "(PlayerStateKey, PlayerState) StateMachine" where
  "two_state_machine =
     \<lparr>state_map = [GROUND \<mapsto> set_parent (fresh_state PlayerGroundState),
                   AIR \<mapsto> set_parent (fresh_state PlayerAirState)],
      priv_state_key = GROUND,
      state = set_parent (fresh_state PlayerGroundState)\<rparr>"

text \<open>
  An 8 by 8 block at (10, 0) and a 6 by 8 player at (5, 0) with horizontal velocity \<open>v\<close>:
  the rectangles overlap by one unit at the block's left side.
\<close>

definition left_contact :: "real \<Rightarrow> world" where
  "left_contact v =
     new_world (new_Entity 10 0 8 8) ((new_MovableEntity 5 0 6 8)\<lparr>e_dx := v\<rparr>)
       (Some Player_machine)"

text \<open>
  A 16 by 8 platform at (0, 8) and an airborne 6 by 8 player at (4, 1) with vertical
  velocity \<open>v\<close>: the rectangles overlap by one unit at the platform's top.
\<close>

definition top_contact :: "real \<Rightarrow> world" where
  "top_contact v =
     new_world (new_Entity 0 8 16 8) ((new_MovableEntity 4 1 6 8)\<lparr>e_dy := v\<rparr>)
       (Some airborne_machine)"

text \<open>A callback with a visible effect.\<close>

definition count_hit :: "world \<Rightarrow> world" where
  "count_hit wd = wd\<lparr>coins := coins wd + 1\<rparr>"

text \<open>An 8 by 8 entity at the origin and a player at \<open>(px, py)\<close>; moving the player.\<close>

definition pair_at :: "bool \<Rightarrow> real \<Rightarrow> real \<Rightarrow> world" where
  "pair_at alive px py =
     new_world ((new_Entity 0 0 8 8)\<lparr>is_alive := alive\<rparr>) (new_MovableEntity px py 6 8)
       (Some Player_machine)"

definition move_other :: "real \<Rightarrow> real \<Rightarrow> 'a world_scheme \<Rightarrow> 'a world_scheme" where
  "move_other px py wd = wd\<lparr>other := (other wd)\<lparr>e_x := px, e_y := py\<rparr>\<rparr>"

text \<open>
  An entity whose \<^verbatim>\<open>on_collision\<close> and \<^verbatim>\<open>on_collision_end\<close> count their own invocations in
  two attributes, \<open>hits\<close> and \<open>ends\<close>, and the pair of \<open>pair_at\<close> with both counters at 0.
\<close>

record counted_world = world +
  hits :: nat
  ends :: nat

definition count_collision :: "counted_world \<Rightarrow> counted_world" where
  "count_collision wd = wd\<lparr>hits := hits wd + 1\<rparr>"

definition count_collision_end :: "counted_world \<Rightarrow> counted_world" where
  "count_collision_end wd = wd\<lparr>ends := ends wd + 1\<rparr>"

definition counted_pair_at :: "real \<Rightarrow> real \<Rightarrow> counted_world" where
  "counted_pair_at px py =
     \<lparr>this = new_Entity 0 0 8 8, other = new_MovableEntity px py 6 8,
      other_machine = Some Player_machine, coins = 0, particles = [],
      death_cur_lifespan = None, random_draws = (\<lambda>n. 1), random_pos = 0,
      hits = 0, ends = 0\<rparr>"

text \<open>A tilemap whose row 3 is solid grass and whose other rows are empty.\<close>

definition row3_solid :: tilemaps where
  "row3_solid idx t = (if snd t = 3 then (4, 0) else (0, 0))"

text \<open>A heap in which every entity is dead: coins collected in the same tick.\<close>

definition all_dead :: "ref \<Rightarrow> Entity" where
  "all_dead r = (new_Entity (8 * real r) 0 8 8)\<lparr>is_alive := False\<rparr>"

text \<open>
  The camera of \<^verbatim>\<open>App.__init__\<close>, \<^verbatim>\<open>Camera(0, 0, SCREEN_WIDTH, SCREEN_HEIGHT)\<close>, and a
  camera of height \<open>ph\<close>, each following a player at \<open>(px, py)\<close>.
\<close>

definition camera_on :: "real \<Rightarrow> real \<Rightarrow> real \<Rightarrow> Camera" where
  "camera_on ph px py =
     (new_Camera 0 0 (real_of_int SCREEN_WIDTH) ph)\<lparr>target := Some (new_MovableEntity px py 6 8)\<rparr>"

section \<open>Theorems\<close>

subsection \<open>Helper lemmas\<close>

lemma Player_machine_init: "init_state_machine Player_state_map GROUND = Inr Player_machine"
  by (simp add: init_state_machine_def Player_state_map_def Player_machine_def)

lemma collide_with_result:
  "collide_with oc oce wd = (r, calls, wd') \<Longrightarrow>
   r = collide_aabb (e_x (this wd)) (e_y (this wd)) (e_w (this wd)) (e_h (this wd))
         (e_x (other wd)) (e_y (other wd)) (e_w (other wd)) (e_h (other wd)) \<and>
   is_colliding (this wd') = r \<and>
   calls = (if r then [OnCollision] else if is_colliding (this wd) then [OnCollisionEnd] else [])"
  by (auto simp: collide_with_def Let_def split: if_splits)

lemma collide_run_calls:
  "(\<forall>between \<in> set steps. \<forall>w. is_colliding (this (between w)) = is_colliding (this w)) \<Longrightarrow>
   map snd (collide_run oc oce steps wd) =
   calls_expected (is_colliding (this wd)) (map fst (collide_run oc oce steps wd))"
proof (induction steps arbitrary: wd)
  case Nil
  then show ?case by simp
next
  case (Cons between rest)
  obtain r calls wd1 where cw: "collide_with oc oce (between wd) = (r, calls, wd1)"
    by (cases "collide_with oc oce (between wd)")
  have flag: "is_colliding (this (between wd)) = is_colliding (this wd)"
    using Cons.prems by simp
  have rest: "\<forall>b \<in> set rest. \<forall>w. is_colliding (this (b w)) = is_colliding (this w)"
    using Cons.prems by simp
  from collide_with_result[OF cw] flag Cons.IH[OF rest, of wd1] cw
  show ?case by simp
qed

lemma collide_with_state:
  "collide_with oc oce wd = (r, calls, wd') \<Longrightarrow>
   wd' = (if r then (oc wd)\<lparr>this := (this (oc wd))\<lparr>is_colliding := True\<rparr>\<rparr>
          else if is_colliding (this wd)
            then (oce wd)\<lparr>this := (this (oce wd))\<lparr>is_colliding := False\<rparr>\<rparr>
          else wd)"
  by (auto simp: collide_with_def Let_def split: if_splits)

lemma collide_run_counts:
  "(\<forall>between \<in> set steps. \<forall>w. is_colliding (this (between w)) = is_colliding (this w) \<and>
        hits (between w) = hits w \<and> ends (between w) = ends w) \<Longrightarrow>
   hits (collide_run_state count_collision count_collision_end steps wd) =
     hits wd + length (filter (\<lambda>r. r) (map fst
       (collide_run count_collision count_collision_end steps wd))) \<and>
   ends (collide_run_state count_collision count_collision_end steps wd) =
     ends wd + length (filter (\<lambda>c. c = [OnCollisionEnd])
       (calls_expected (is_colliding (this wd)) (map fst
          (collide_run count_collision count_collision_end steps wd))))"
proof (induction steps arbitrary: wd)
  case Nil
  then show ?case by simp
next
  case (Cons between rest)
  obtain r calls wd1 where cw:
    "collide_with count_collision count_collision_end (between wd) = (r, calls, wd1)"
    by (cases "collide_with count_collision count_collision_end (between wd)")
  have pres: "is_colliding (this (between wd)) = is_colliding (this wd)"
    "hits (between wd) = hits wd" "ends (between wd) = ends wd"
    using Cons.prems by simp_all
  have rest: "\<forall>b \<in> set rest. \<forall>w. is_colliding (this (b w)) = is_colliding (this w) \<and>
        hits (b w) = hits w \<and> ends (b w) = ends w"
    using Cons.prems by simp
  note res = collide_with_result[OF cw]
  note st = collide_with_state[OF cw]
  have flag1: "is_colliding (this wd1) = r"
    using res by simp
  have h1: "hits wd1 = hits wd + (if r then 1 else 0)"
    using st pres by (simp add: count_collision_def count_collision_end_def)
  have e1: "ends wd1 = ends wd + (if \<not> r \<and> is_colliding (this wd) then 1 else 0)"
    using st pres by (simp add: count_collision_def count_collision_end_def)
  from Cons.IH[OF rest, of wd1] cw flag1 h1 e1
  show ?case by simp
qed

text \<open>
  After a call that returned true, a run of calls that return false invokes
  \<^verbatim>\<open>on_collision_end\<close> at the first of them and nothing afterwards.
\<close>

lemma calls_expected_clear: "calls_expected False (replicate n False) = replicate n []"
  by (induction n) simp_all

lemma calls_expected_separating:
  "calls_expected True (replicate (Suc n) False) = [OnCollisionEnd] # replicate n []"
  by (simp add: calls_expected_clear)

lemma Player_set_state_key_GROUND:
  "GROUND \<in> dom (state_map m) \<Longrightarrow> has_parent (state m) \<Longrightarrow>
   Player_set_state_key GROUND m wd = (e, wd') \<Longrightarrow>
   map_option priv_state_key (other_machine wd') = Some GROUND"
  by (auto simp: Player_set_state_key_def state_key_setter_def Player_on_exit_def
      State_on_exit_def split: option.splits prod.splits if_splits)

lemma call_opt_keeps_machine:
  "(\<forall>f. cb = Some f \<longrightarrow> (\<forall>w. other_machine (f w) = other_machine w)) \<Longrightarrow>
   other_machine (snd (call_opt cb tag wd)) = other_machine wd"
  by (simp add: call_opt_def split: option.splits)

lemma call_on_hit_keeps_machine:
  "(\<forall>f. on_hit args = Some f \<longrightarrow> (\<forall>w. other_machine (f w) = other_machine w)) \<Longrightarrow>
   other_machine (snd (snd (call_on_hit args cw))) = other_machine (snd cw)"
  by (cases cw) (simp add: call_on_hit_def call_opt_def split: option.splits prod.splits)

lemmas example_defs =
  new_world_def new_Entity_def new_MovableEntity_def Player_machine_def airborne_machine_def
  two_state_machine_def left_contact_def top_contact_def count_hit_def pair_at_def
  move_other_def row3_solid_def all_dead_def camera_on_def new_Camera_def default_args_def
  Player_state_map_def fresh_state_def set_parent_def counted_pair_at_def count_collision_def
  count_collision_end_def

lemmas overlap_defs =
  min_overlap_def left_overlap_def right_overlap_def top_overlap_def bottom_overlap_def

subsection \<open>Entity.collide_with\<close>

text \<open>
  C1 (as amended). A call of \<^verbatim>\<open>collide_with\<close> returns the overlap test of the two
  rectangles and leaves the stored colliding flag equal to it. When the rectangles
  overlap it runs \<^verbatim>\<open>on_collision\<close>, whether or not the flag was already set: the state
  after the call is the state \<^verbatim>\<open>on_collision\<close> produced, with the flag set. When they do
  not overlap and the flag is set it runs \<^verbatim>\<open>on_collision_end\<close>: the state after the call
  is the state \<^verbatim>\<open>on_collision_end\<close> produced, with the flag cleared. Otherwise it runs
  neither and the state is unchanged. So over any sequence of calls between which nothing
  else writes the flag, \<^verbatim>\<open>on_collision\<close> is invoked at every call with overlapping
  rectangles and at no other, and \<^verbatim>\<open>on_collision_end\<close> exactly at the calls where the pair
  passes from colliding to not colliding; callbacks that count their own invocations end
  with exactly those counts.
\<close>

theorem collide_with_calls:
  "(collide_with oc oce wd = (r, calls, wd') \<longrightarrow>
      r = collide_aabb (e_x (this wd)) (e_y (this wd)) (e_w (this wd)) (e_h (this wd))
            (e_x (other wd)) (e_y (other wd)) (e_w (other wd)) (e_h (other wd)) \<and>
      is_colliding (this wd') = r \<and>
      calls = (if r then [OnCollision]
               else if is_colliding (this wd) then [OnCollisionEnd] else []) \<and>
      wd' = (if r then (oc wd)\<lparr>this := (this (oc wd))\<lparr>is_colliding := True\<rparr>\<rparr>
             else if is_colliding (this wd)
               then (oce wd)\<lparr>this := (this (oce wd))\<lparr>is_colliding := False\<rparr>\<rparr>
             else wd)) \<and>
   ((\<forall>between \<in> set steps. \<forall>w. is_colliding (this (between w)) = is_colliding (this w)) \<longrightarrow>
      map snd (collide_run oc oce steps wd0) =
      calls_expected (is_colliding (this wd0)) (map fst (collide_run oc oce steps wd0))) \<and>
   ((\<forall>between \<in> set csteps. \<forall>w. is_colliding (this (between w)) = is_colliding (this w) \<and>
         hits (between w) = hits w \<and> ends (between w) = ends w) \<longrightarrow>
      hits (collide_run_state count_collision count_collision_end csteps cwd) =
        hits cwd + length (filter (\<lambda>r. r) (map fst
          (collide_run count_collision count_collision_end csteps cwd))) \<and>
      ends (collide_run_state count_collision count_collision_end csteps cwd) =
        ends cwd + length (filter (\<lambda>c. c = [OnCollisionEnd])
          (calls_expected (is_colliding (this cwd)) (map fst
             (collide_run count_collision count_collision_end csteps cwd)))))"
  using collide_with_result[of oc oce wd r calls wd'] collide_with_state[of oc oce wd r calls wd']
    collide_run_calls[of steps oc oce wd0] collide_run_counts[of csteps cwd]
  by blast

text \<open>
  Witness, with callbacks that count their invocations. One call on overlapping
  rectangles runs \<^verbatim>\<open>on_collision\<close> once; one call on separated rectangles with the flag
  set runs \<^verbatim>\<open>on_collision_end\<close> once. Over four ticks the player stays on the entity for
  two, leaves it and stays away: \<^verbatim>\<open>on_collision\<close> has run twice and \<^verbatim>\<open>on_collision_end\<close>
  once.
\<close>

theorem collide_with_calls_witness:
  "collide_with count_collision count_collision_end (counted_pair_at 4 4) =
     (True, [OnCollision],
      (counted_pair_at 4 4)\<lparr>this := (this (counted_pair_at 4 4))\<lparr>is_colliding := True\<rparr>,
                             hits := 1\<rparr>) \<and>
   collide_with count_collision count_collision_end
     ((counted_pair_at 30 4)\<lparr>this := (this (counted_pair_at 30 4))\<lparr>is_colliding := True\<rparr>\<rparr>) =
     (False, [OnCollisionEnd], (counted_pair_at 30 4)\<lparr>ends := 1\<rparr>) \<and>
   list_all (\<lambda>between. \<forall>w :: counted_world.
       is_colliding (this (between w)) = is_colliding (this w) \<and>
       hits (between w) = hits w \<and> ends (between w) = ends w)
     [move_other 4 4, move_other 5 4, move_other 20 4, move_other 21 4] \<and>
   collide_run count_collision count_collision_end
     [move_other 4 4, move_other 5 4, move_other 20 4, move_other 21 4] (counted_pair_at 30 4) =
     [(True, [OnCollision]), (True, [OnCollision]), (False, [OnCollisionEnd]), (False, [])] \<and>
   map snd (collide_run count_collision count_collision_end
     [move_other 4 4, move_other 5 4, move_other 20 4, move_other 21 4] (counted_pair_at 30 4)) =
     calls_expected (is_colliding (this (counted_pair_at 30 4)))
       (map fst (collide_run count_collision count_collision_end
          [move_other 4 4, move_other 5 4, move_other 20 4, move_other 21 4]
          (counted_pair_at 30 4))) \<and>
   hits (collide_run_state count_collision count_collision_end
     [move_other 4 4, move_other 5 4, move_other 20 4, move_other 21 4] (counted_pair_at 30 4)) = 2 \<and>
   ends (collide_run_state count_collision count_collision_end
     [move_other 4 4, move_other 5 4, move_other 20 4, move_other 21 4] (counted_pair_at 30 4)) = 1"
proof -
  define on_it where "on_it = counted_pair_at 4 4"
  define left_it where
    "left_it = (counted_pair_at 30 4)\<lparr>this := (this (counted_pair_at 30 4))\<lparr>is_colliding := True\<rparr>\<rparr>"
  define steps :: "(counted_world \<Rightarrow> counted_world) list" where
    "steps = [move_other 4 4, move_other 5 4, move_other 20 4, move_other 21 4]"
  define cw1 where "cw1 = collide_with count_collision count_collision_end on_it"
  define cw2 where "cw2 = collide_with count_collision count_collision_end left_it"
  have s1: "collide_with count_collision count_collision_end on_it =
      (fst cw1, fst (snd cw1), snd (snd cw1))"
    and s2: "collide_with count_collision count_collision_end left_it =
      (fst cw2, fst (snd cw2), snd (snd cw2))"
    by (simp_all add: cw1_def cw2_def)
  have ov1: "collide_aabb (e_x (this on_it)) (e_y (this on_it)) (e_w (this on_it))
      (e_h (this on_it)) (e_x (other on_it)) (e_y (other on_it)) (e_w (other on_it))
      (e_h (other on_it))"
    by (simp add: on_it_def collide_aabb_def example_defs)
  have ov2: "\<not> collide_aabb (e_x (this left_it)) (e_y (this left_it)) (e_w (this left_it))
      (e_h (this left_it)) (e_x (other left_it)) (e_y (other left_it)) (e_w (other left_it))
      (e_h (other left_it))" "is_colliding (this left_it)"
    by (simp_all add: left_it_def collide_aabb_def example_defs)
  have pres: "\<forall>between \<in> set steps. \<forall>w. is_colliding (this (between w)) = is_colliding (this w)"
    and cpres: "\<forall>between \<in> set steps. \<forall>w. is_colliding (this (between w)) = is_colliding (this w) \<and>
         hits (between w) = hits w \<and> ends (between w) = ends w"
    by (simp_all add: steps_def move_other_def)
  note t1 = collide_with_calls[of count_collision count_collision_end on_it
      "fst cw1" "fst (snd cw1)" "snd (snd cw1)" steps "counted_pair_at 30 4" steps
      "counted_pair_at 30 4"]
  note t2 = collide_with_calls[of count_collision count_collision_end left_it
      "fst cw2" "fst (snd cw2)" "snd (snd cw2)" steps "counted_pair_at 30 4" steps
      "counted_pair_at 30 4"]
  note single1 = t1[THEN conjunct1, THEN mp, OF s1]
  note single2 = t2[THEN conjunct1, THEN mp, OF s2]
  note seq = t1[THEN conjunct2, THEN conjunct1, THEN mp, OF pres]
  note cnt = t1[THEN conjunct2, THEN conjunct2, THEN mp, OF cpres]
  have r1: "fst cw1 = True" "fst (snd cw1) = [OnCollision]"
    "snd (snd cw1) = (count_collision on_it)\<lparr>this := (this (count_collision on_it))
        \<lparr>is_colliding := True\<rparr>\<rparr>"
    using single1 ov1 by simp_all
  have r2: "fst cw2 = False" "fst (snd cw2) = [OnCollisionEnd]"
    "snd (snd cw2) = (count_collision_end left_it)\<lparr>this := (this (count_collision_end left_it))
        \<lparr>is_colliding := False\<rparr>\<rparr>"
    using single2 ov2 by simp_all
  have a: "collide_with count_collision count_collision_end (counted_pair_at 4 4) =
     (True, [OnCollision],
      (counted_pair_at 4 4)\<lparr>this := (this (counted_pair_at 4 4))\<lparr>is_colliding := True\<rparr>,
                             hits := 1\<rparr>)"
    using s1 r1 by (simp add: on_it_def count_collision_def example_defs)
  have b: "collide_with count_collision count_collision_end
     ((counted_pair_at 30 4)\<lparr>this := (this (counted_pair_at 30 4))\<lparr>is_colliding := True\<rparr>\<rparr>) =
     (False, [OnCollisionEnd], (counted_pair_at 30 4)\<lparr>ends := 1\<rparr>)"
    using s2 r2 by (simp add: left_it_def count_collision_end_def example_defs)
  have l: "list_all (\<lambda>between. \<forall>w :: counted_world.
       is_colliding (this (between w)) = is_colliding (this w) \<and>
       hits (between w) = hits w \<and> ends (between w) = ends w)
     [move_other 4 4, move_other 5 4, move_other 20 4, move_other 21 4]"
    by (simp add: move_other_def)
  have run: "collide_run count_collision count_collision_end steps (counted_pair_at 30 4) =
     [(True, [OnCollision]), (True, [OnCollision]), (False, [OnCollisionEnd]), (False, [])]"
    by (simp add: steps_def collide_with_def collide_aabb_def count_collision_def
        count_collision_end_def Let_def example_defs)
  have h: "hits (collide_run_state count_collision count_collision_end steps
      (counted_pair_at 30 4)) = 2"
    and e: "ends (collide_run_state count_collision count_collision_end steps
      (counted_pair_at 30 4)) = 1"
    using cnt unfolding run by (simp_all add: example_defs)
  show ?thesis
    using a b l run[unfolded steps_def] seq[unfolded steps_def] h[unfolded steps_def]
      e[unfolded steps_def]
    by (intro conjI)
qed

text \<open>
  Counterexample to C1 as stated: over two consecutive calls with overlapping rectangles,
  starting with the flag clear, \<^verbatim>\<open>on_collision\<close> is invoked at both; the second call finds
  the flag already set and is no transition.
\<close>

theorem collide_with_repeats_on_collision:
  "\<not> is_colliding (this (pair_at True 4 4)) \<and>
   collide_run Entity_on_collision Entity_on_collision_end [id, id] (pair_at True 4 4) =
     [(True, [OnCollision]), (True, [OnCollision])] \<and>
   is_colliding (this (snd (snd (collide_with Entity_on_collision Entity_on_collision_end
      (pair_at True 4 4))))) \<and>
   fst (snd (collide_with Entity_on_collision Entity_on_collision_end
      (snd (snd (collide_with Entity_on_collision Entity_on_collision_end (pair_at True 4 4))))))
     = [OnCollision]"
  by (simp add: collide_with_def collide_aabb_def Entity_on_collision_def
      Entity_on_collision_end_def Let_def example_defs)

text \<open>
  C5 (as amended). The collision path does not read the liveness flag. For an entity
  whose flag is already false, \<^verbatim>\<open>collide_with\<close> changes nothing when the rectangles do not
  overlap and the stored colliding flag is clear; when a dead coin overlaps the player,
  \<^verbatim>\<open>Coin.on_collision\<close> runs as for a live one: the coin counter grows by one, one more
  sprite is appended to the particles and the colliding flag is set.
\<close>

theorem dead_coin_collision:
  "\<not> is_alive (this wd) \<Longrightarrow>
   (\<not> collide_aabb (e_x (this wd)) (e_y (this wd)) (e_w (this wd)) (e_h (this wd))
         (e_x (other wd)) (e_y (other wd)) (e_w (other wd)) (e_h (other wd)) \<and>
    \<not> is_colliding (this wd) \<longrightarrow>
      collide_with Coin_on_collision Entity_on_collision_end wd = (False, [], wd)) \<and>
   (collide_aabb (e_x (this wd)) (e_y (this wd)) (e_w (this wd)) (e_h (this wd))
         (e_x (other wd)) (e_y (other wd)) (e_w (other wd)) (e_h (other wd)) \<and>
    other_machine wd \<noteq> None \<longrightarrow>
      (case collide_with Coin_on_collision Entity_on_collision_end wd of
         (r, calls, wd') \<Rightarrow>
           r \<and> calls = [OnCollision] \<and> coins wd' = coins wd + 1 \<and>
           length (particles wd') = length (particles wd) + 1 \<and>
           is_colliding (this wd') \<and> \<not> is_alive (this wd')))"
  by (auto simp: collide_with_def Coin_on_collision_def Coin_die_def Let_def)

theorem dead_coin_collision_witness:
  "\<not> is_alive (this (pair_at False 30 4)) \<and>
   collide_with Coin_on_collision Entity_on_collision_end (pair_at False 30 4) =
     (False, [], pair_at False 30 4) \<and>
   \<not> is_alive (this (pair_at False 4 4)) \<and>
   (case collide_with Coin_on_collision Entity_on_collision_end (pair_at False 4 4) of
      (r, calls, wd') \<Rightarrow>
        r \<and> calls = [OnCollision] \<and> coins wd' = coins (pair_at False 4 4) + 1 \<and>
        length (particles wd') = length (particles (pair_at False 4 4)) + 1 \<and>
        is_colliding (this wd') \<and> \<not> is_alive (this wd'))"
proof -
  have a: "\<not> is_alive (this (pair_at False 30 4))" and b: "\<not> is_alive (this (pair_at False 4 4))"
    by (simp_all add: example_defs)
  have far: "\<not> collide_aabb (e_x (this (pair_at False 30 4))) (e_y (this (pair_at False 30 4)))
        (e_w (this (pair_at False 30 4))) (e_h (this (pair_at False 30 4)))
        (e_x (other (pair_at False 30 4))) (e_y (other (pair_at False 30 4)))
        (e_w (other (pair_at False 30 4))) (e_h (other (pair_at False 30 4))) \<and>
      \<not> is_colliding (this (pair_at False 30 4))"
    by (simp add: collide_aabb_def example_defs)
  have near: "collide_aabb (e_x (this (pair_at False 4 4))) (e_y (this (pair_at False 4 4)))
        (e_w (this (pair_at False 4 4))) (e_h (this (pair_at False 4 4)))
        (e_x (other (pair_at False 4 4))) (e_y (other (pair_at False 4 4)))
        (e_w (other (pair_at False 4 4))) (e_h (other (pair_at False 4 4))) \<and>
      other_machine (pair_at False 4 4) \<noteq> None"
    by (simp add: collide_aabb_def example_defs)
  note r1 = dead_coin_collision[OF a, THEN conjunct1, THEN mp, OF far]
  note r2 = dead_coin_collision[OF b, THEN conjunct2, THEN mp, OF near]
  show ?thesis using a b r1 r2 by (intro conjI)
qed

text \<open>
  Counterexample to C5 as stated: a coin that is already dead and overlaps the player.
  The call is no no-op: it counts the coin and spawns a sprite.
\<close>

theorem dead_coin_counts_again:
  "\<not> is_alive (this (pair_at False 4 4)) \<and>
   coins (pair_at False 4 4) = 0 \<and> particles (pair_at False 4 4) = [] \<and>
   coins (snd (snd (collide_with Coin_on_collision Entity_on_collision_end
      (pair_at False 4 4)))) = 1 \<and>
   length (particles (snd (snd (collide_with Coin_on_collision Entity_on_collision_end
      (pair_at False 4 4))))) = 1"
  by (simp add: collide_with_def collide_aabb_def Coin_on_collision_def Coin_die_def Let_def
      example_defs)

subsection \<open>pushback_entity\<close>

text \<open>
  C2 (as amended). When \<^verbatim>\<open>left_overlap\<close> is the minimum of the four overlaps and the
  partner moves right (\<^verbatim>\<open>dx > 0\<close>): with the flag \<^verbatim>\<open>pushback_x_left\<close> set (the default),
  \<^verbatim>\<open>pushback_entity\<close> sets the partner's \<^verbatim>\<open>x\<close> to \<^verbatim>\<open>this.x - other.w\<close> and its \<^verbatim>\<open>dx\<close> to
  \<^verbatim>\<open>-horz_pushback\<close>; with horizontal pushback enabled through \<^verbatim>\<open>pushback_x_right\<close> alone
  it sets \<^verbatim>\<open>x\<close> and leaves \<^verbatim>\<open>dx\<close> as it was. In both cases it then invokes \<^verbatim>\<open>on_hit_right\<close>
  and \<^verbatim>\<open>on_hit\<close> where registered; with no callback registered that is the whole effect.
\<close>

theorem pushback_left_contact:
  "min_overlap wd = left_overlap wd \<Longrightarrow> e_dx (other wd) > 0 \<Longrightarrow>
   (pushback_x_left args \<longrightarrow>
      pushback_entity args wd =
        call_on_hit args (call_opt (on_hit_right args) OnHitRight
          (wd\<lparr>other := (other wd)\<lparr>e_x := e_x (this wd) - e_w (other wd),
                                    e_dx := - horz_pushback args\<rparr>\<rparr>)) \<and>
      (on_hit_right args = None \<and> on_hit args = None \<longrightarrow>
         pushback_entity args wd =
           (None, [], wd\<lparr>other := (other wd)\<lparr>e_x := e_x (this wd) - e_w (other wd),
                                              e_dx := - horz_pushback args\<rparr>\<rparr>))) \<and>
   (pushback_x_right args \<and> \<not> pushback_x_left args \<longrightarrow>
      pushback_entity args wd =
        call_on_hit args (call_opt (on_hit_right args) OnHitRight
          (wd\<lparr>other := (other wd)\<lparr>e_x := e_x (this wd) - e_w (other wd)\<rparr>\<rparr>)) \<and>
      (on_hit_right args = None \<and> on_hit args = None \<longrightarrow>
         pushback_entity args wd =
           (None, [], wd\<lparr>other := (other wd)\<lparr>e_x := e_x (this wd) - e_w (other wd)\<rparr>\<rparr>)))"
proof -
  assume h: "min_overlap wd = left_overlap wd" "e_dx (other wd) > 0"
  have eq1: "pushback_entity args wd =
     call_on_hit args (call_opt (on_hit_right args) OnHitRight
       (wd\<lparr>other := (other wd)\<lparr>e_x := e_x (this wd) - e_w (other wd),
                                 e_dx := - horz_pushback args\<rparr>\<rparr>))"
    if "pushback_x_left args"
    using h that by (simp add: pushback_entity_def Let_def apply_horz_pushback_def)
  have eq2: "pushback_entity args wd =
     call_on_hit args (call_opt (on_hit_right args) OnHitRight
       (wd\<lparr>other := (other wd)\<lparr>e_x := e_x (this wd) - e_w (other wd)\<rparr>\<rparr>))"
    if "pushback_x_right args \<and> \<not> pushback_x_left args"
    using h that by (simp add: pushback_entity_def Let_def apply_horz_pushback_def)
  have none: "call_on_hit args (call_opt (on_hit_right args) OnHitRight w) = (None, [], w)"
    if "on_hit_right args = None \<and> on_hit args = None" for w
    using that by (simp add: call_on_hit_def call_opt_def)
  show ?thesis
    using eq1 eq2 none by simp
qed

text \<open>
  Witness: the player runs into the block's left side with \<^verbatim>\<open>horz_pushback = 2\<close>, once
  with the default flags and once with \<^verbatim>\<open>pushback_x_left\<close> cleared.
\<close>

theorem pushback_left_contact_witness:
  "min_overlap (left_contact 1) = left_overlap (left_contact 1) \<and>
   e_dx (other (left_contact 1)) > 0 \<and>
   pushback_x_left (default_args\<lparr>horz_pushback := 2\<rparr> :: world pushback_args) \<and>
   on_hit_right (default_args\<lparr>horz_pushback := 2\<rparr> :: world pushback_args) = None \<and>
   on_hit (default_args\<lparr>horz_pushback := 2\<rparr> :: world pushback_args) = None \<and>
   pushback_entity (default_args\<lparr>horz_pushback := 2\<rparr>) (left_contact 1) =
     (None, [], (left_contact 1)\<lparr>other := (other (left_contact 1))\<lparr>e_x := 4, e_dx := - 2\<rparr>\<rparr>) \<and>
   pushback_x_right (default_args\<lparr>horz_pushback := 2, pushback_x_left := False\<rparr>
     :: world pushback_args) \<and>
   \<not> pushback_x_left (default_args\<lparr>horz_pushback := 2, pushback_x_left := False\<rparr>
     :: world pushback_args) \<and>
   pushback_entity (default_args\<lparr>horz_pushback := 2, pushback_x_left := False\<rparr>)
     (left_contact 1) =
     (None, [], (left_contact 1)\<lparr>other := (other (left_contact 1))\<lparr>e_x := 4\<rparr>\<rparr>)"
proof -
  have h1: "min_overlap (left_contact 1) = left_overlap (left_contact 1)"
    by (simp add: overlap_defs example_defs)
  have h2: "e_dx (other (left_contact 1)) > 0"
    by (simp add: example_defs)
  have h3: "pushback_x_left (default_args\<lparr>horz_pushback := 2\<rparr> :: world pushback_args)"
    by (simp add: example_defs)
  have h4: "on_hit_right (default_args\<lparr>horz_pushback := 2\<rparr> :: world pushback_args) = None \<and>
            on_hit (default_args\<lparr>horz_pushback := 2\<rparr> :: world pushback_args) = None"
    by (simp add: example_defs)
  have g3: "pushback_x_right (default_args\<lparr>horz_pushback := 2, pushback_x_left := False\<rparr>
              :: world pushback_args) \<and>
            \<not> pushback_x_left (default_args\<lparr>horz_pushback := 2, pushback_x_left := False\<rparr>
              :: world pushback_args)"
    by (simp add: example_defs)
  have g4: "on_hit_right (default_args\<lparr>horz_pushback := 2, pushback_x_left := False\<rparr>
              :: world pushback_args) = None \<and>
            on_hit (default_args\<lparr>horz_pushback := 2, pushback_x_left := False\<rparr>
              :: world pushback_args) = None"
    by (simp add: example_defs)
  note t1 = pushback_left_contact[OF h1 h2, of "default_args\<lparr>horz_pushback := 2\<rparr>"]
  note t2 = pushback_left_contact[OF h1 h2,
      of "default_args\<lparr>horz_pushback := 2, pushback_x_left := False\<rparr>"]
  note r1 = t1[THEN conjunct1, THEN mp, OF h3, THEN conjunct2, THEN mp, OF h4]
  note r2 = t2[THEN conjunct2, THEN mp, OF g3, THEN conjunct2, THEN mp, OF g4]
  have a: "pushback_entity (default_args\<lparr>horz_pushback := 2\<rparr>) (left_contact 1) =
     (None, [], (left_contact 1)\<lparr>other := (other (left_contact 1))\<lparr>e_x := 4, e_dx := - 2\<rparr>\<rparr>)"
    using r1 by (simp add: example_defs)
  have b: "pushback_entity (default_args\<lparr>horz_pushback := 2, pushback_x_left := False\<rparr>)
     (left_contact 1) =
     (None, [], (left_contact 1)\<lparr>other := (other (left_contact 1))\<lparr>e_x := 4\<rparr>\<rparr>)"
    using r2 by (simp add: example_defs)
  show ?thesis
    using h1 h2 h3 h4[THEN conjunct1] h4[THEN conjunct2] a g3[THEN conjunct1]
      g3[THEN conjunct2] b
    by (intro conjI)
qed

text \<open>
  Counterexample to C2 as stated: horizontal pushback is enabled through
  \<^verbatim>\<open>pushback_x_right\<close> alone. The rectangles overlap, \<^verbatim>\<open>left_overlap\<close> is the minimum and
  \<^verbatim>\<open>dx > 0\<close>; the call sets \<^verbatim>\<open>x\<close> but leaves \<^verbatim>\<open>dx\<close> at 1 instead of \<^verbatim>\<open>-horz_pushback = -2\<close>.
\<close>

theorem pushback_left_contact_right_flag_only:
  "(pushback_x_right (default_args\<lparr>horz_pushback := 2, pushback_x_left := False\<rparr>
       :: world pushback_args) \<or>
    pushback_x_left (default_args\<lparr>horz_pushback := 2, pushback_x_left := False\<rparr>
       :: world pushback_args)) \<and>
   collide_aabb (e_x (this (left_contact 1))) (e_y (this (left_contact 1)))
     (e_w (this (left_contact 1))) (e_h (this (left_contact 1)))
     (e_x (other (left_contact 1))) (e_y (other (left_contact 1)))
     (e_w (other (left_contact 1))) (e_h (other (left_contact 1))) \<and>
   min_overlap (left_contact 1) = left_overlap (left_contact 1) \<and>
   e_dx (other (left_contact 1)) > 0 \<and>
   pushback_entity (default_args\<lparr>horz_pushback := 2, pushback_x_left := False\<rparr>) (left_contact 1) =
     (None, [], (left_contact 1)\<lparr>other := (other (left_contact 1))\<lparr>e_x := 4\<rparr>\<rparr>) \<and>
   e_dx (other (snd (snd (pushback_entity
      (default_args\<lparr>horz_pushback := 2, pushback_x_left := False\<rparr>) (left_contact 1))))) = 1 \<and>
   e_dx (other (snd (snd (pushback_entity
      (default_args\<lparr>horz_pushback := 2, pushback_x_left := False\<rparr>) (left_contact 1))))) \<noteq>
     - horz_pushback (default_args\<lparr>horz_pushback := 2, pushback_x_left := False\<rparr>
         :: world pushback_args)"
  by (simp add: pushback_entity_def Let_def apply_horz_pushback_def call_on_hit_def call_opt_def
      collide_aabb_def overlap_defs example_defs)

text \<open>
  C3 (as amended). When \<^verbatim>\<open>pushback_entity\<close> resolves a top-side contact (\<^verbatim>\<open>top_overlap\<close> is
  the minimum, \<^verbatim>\<open>dy > 0\<close>, and neither horizontal branch applies) on a player whose
  machine registers \<^verbatim>\<open>GROUND\<close>, and the callbacks \<^verbatim>\<open>on_hit_above\<close> and \<^verbatim>\<open>on_hit\<close> do not
  assign the player's machine: if \<^verbatim>\<open>pushback_y_up\<close> or \<^verbatim>\<open>pushback_y_down\<close> is set, the
  player's state key is \<^verbatim>\<open>GROUND\<close> after the call; if both are cleared, the resolver leaves
  the machine as it was.
\<close>

theorem pushback_top_contact:
  assumes top: "min_overlap wd = top_overlap wd" "e_dy (other wd) > 0"
    and nl: "\<not> (min_overlap wd = left_overlap wd \<and> e_dx (other wd) > 0)"
    and nr: "\<not> (min_overlap wd = right_overlap wd \<and> e_dx (other wd) < 0)"
    and pl: "other_machine wd = Some m" "GROUND \<in> dom (state_map m)" "has_parent (state m)"
    and cb: "\<forall>f. on_hit_above args = Some f \<or> on_hit args = Some f \<longrightarrow>
                 (\<forall>w. other_machine (f w) = other_machine w)"
  shows "(pushback_y_up args \<or> pushback_y_down args \<longrightarrow>
            map_option priv_state_key (other_machine (snd (snd (pushback_entity args wd))))
              = Some GROUND) \<and>
         (\<not> pushback_y_up args \<and> \<not> pushback_y_down args \<longrightarrow>
            other_machine (snd (snd (pushback_entity args wd))) = Some m)"
proof -
  have c1: "(min_overlap wd = left_overlap wd \<and> e_dx (other wd) > 0) = False"
    using nl by simp
  have c2: "(min_overlap wd = right_overlap wd \<and> e_dx (other wd) < 0) = False"
    using nr by simp
  have c3: "(min_overlap wd = bottom_overlap wd \<and> e_dy (other wd) < 0) = False"
    using top(2) by simp
  have c4: "(min_overlap wd = top_overlap wd \<and> e_dy (other wd) > 0) = True"
    using top by simp
  have keep: "other_machine (snd (snd (call_on_hit args
                 (call_opt (on_hit_above args) OnHitAbove w)))) = other_machine w" for w
  proof -
    have "other_machine (snd (snd (call_on_hit args (call_opt (on_hit_above args) OnHitAbove w))))
          = other_machine (snd (call_opt (on_hit_above args) OnHitAbove w))"
      using cb by (intro call_on_hit_keeps_machine) blast
    also have "\<dots> = other_machine w"
      using cb by (intro call_opt_keeps_machine) blast
    finally show ?thesis .
  qed
  have enabled: "map_option priv_state_key (other_machine (snd (snd (pushback_entity args wd))))
       = Some GROUND" if py: "pushback_y_up args \<or> pushback_y_down args"
  proof -
    define wd1 where "wd1 = apply_vert_pushback args
       (wd\<lparr>other := (other wd)\<lparr>e_y := e_y (this wd) - e_h (other wd)\<rparr>\<rparr>)"
    have m1: "other_machine wd1 = Some m"
      using pl(1) by (simp add: wd1_def apply_vert_pushback_def)
    obtain e wd2 where s: "Player_set_state_key GROUND m wd1 = (e, wd2)"
      by (cases "Player_set_state_key GROUND m wd1")
    have g: "map_option priv_state_key (other_machine wd2) = Some GROUND"
      using Player_set_state_key_GROUND[OF pl(2) pl(3) s] .
    have c5: "(pushback_y_up args \<or> pushback_y_down args) = True"
      using py by simp
    have "pushback_entity args wd =
        (case (case other_machine wd1 of Some m \<Rightarrow> Player_set_state_key GROUND m wd1
               | None \<Rightarrow> (None, wd1)) of
           (Some e, wd2) \<Rightarrow> (Some e, [], wd2)
         | (None, wd2) \<Rightarrow> call_on_hit args (call_opt (on_hit_above args) OnHitAbove wd2))"
      by (simp only: pushback_entity_def Let_def c1 c2 c3 c4 c5 if_False if_True wd1_def)
    then have eq: "pushback_entity args wd =
        (case e of Some err \<Rightarrow> (Some err, [], wd2)
         | None \<Rightarrow> call_on_hit args (call_opt (on_hit_above args) OnHitAbove wd2))"
      using m1 s by (simp split: option.splits)
    show ?thesis
      using eq g keep[of wd2] by (cases e) simp_all
  qed
  have disabled: "other_machine (snd (snd (pushback_entity args wd))) = Some m"
    if npy: "\<not> pushback_y_up args \<and> \<not> pushback_y_down args"
  proof -
    have c5: "(pushback_y_up args \<or> pushback_y_down args) = False"
      using npy by simp
    have "pushback_entity args wd =
        (case (None, wd) of
           (Some e, wd2) \<Rightarrow> (Some e, [], wd2)
         | (None, wd2) \<Rightarrow> call_on_hit args (call_opt (on_hit_above args) OnHitAbove wd2))"
      by (simp only: pushback_entity_def Let_def c1 c2 c3 c4 c5 if_False if_True)
    then show ?thesis
      using keep[of wd] pl(1) by simp
  qed
  from enabled disabled show ?thesis by blast
qed

text \<open>
  Witness: the airborne player lands on the platform, once with the default flags and
  once with both vertical flags cleared.
\<close>

theorem pushback_top_contact_witness:
  "min_overlap (top_contact 1) = top_overlap (top_contact 1) \<and>
   e_dy (other (top_contact 1)) > 0 \<and>
   other_machine (top_contact 1) = Some airborne_machine \<and>
   GROUND \<in> dom (state_map airborne_machine) \<and> has_parent (state airborne_machine) \<and>
   map_option priv_state_key (other_machine (snd (snd (pushback_entity
      (default_args :: world pushback_args) (top_contact 1))))) = Some GROUND \<and>
   other_machine (snd (snd (pushback_entity
      (default_args\<lparr>pushback_y_up := False, pushback_y_down := False\<rparr> :: world pushback_args)
      (top_contact 1)))) = Some airborne_machine"
proof -
  have top: "min_overlap (top_contact 1) = top_overlap (top_contact 1)"
    "e_dy (other (top_contact 1)) > 0"
    by (simp_all add: overlap_defs example_defs)
  have nl: "\<not> (min_overlap (top_contact 1) = left_overlap (top_contact 1) \<and>
                e_dx (other (top_contact 1)) > 0)"
    and nr: "\<not> (min_overlap (top_contact 1) = right_overlap (top_contact 1) \<and>
                e_dx (other (top_contact 1)) < 0)"
    by (simp_all add: overlap_defs example_defs)
  have pl: "other_machine (top_contact 1) = Some airborne_machine"
    "GROUND \<in> dom (state_map airborne_machine)" "has_parent (state airborne_machine)"
    by (simp_all add: example_defs domIff)
  have cb1: "\<forall>f. on_hit_above (default_args :: world pushback_args) = Some f \<or>
                 on_hit (default_args :: world pushback_args) = Some f \<longrightarrow>
                 (\<forall>w. other_machine (f w) = other_machine w)"
    by (simp add: example_defs)
  have cb2: "\<forall>f. on_hit_above (default_args\<lparr>pushback_y_up := False, pushback_y_down := False\<rparr>
                    :: world pushback_args) = Some f \<or>
                 on_hit (default_args\<lparr>pushback_y_up := False, pushback_y_down := False\<rparr>
                    :: world pushback_args) = Some f \<longrightarrow>
                 (\<forall>w. other_machine (f w) = other_machine w)"
    by (simp add: example_defs)
  have f1: "pushback_y_up (default_args :: world pushback_args) \<or>
            pushback_y_down (default_args :: world pushback_args)"
    by (simp add: example_defs)
  have f2: "\<not> pushback_y_up (default_args\<lparr>pushback_y_up := False, pushback_y_down := False\<rparr>
                 :: world pushback_args) \<and>
            \<not> pushback_y_down (default_args\<lparr>pushback_y_up := False, pushback_y_down := False\<rparr>
                 :: world pushback_args)"
    by (simp add: example_defs)
  note r1 = pushback_top_contact[OF top nl nr pl cb1, THEN conjunct1, THEN mp, OF f1]
  note r2 = pushback_top_contact[OF top nl nr pl cb2, THEN conjunct2, THEN mp, OF f2]
  show ?thesis using top pl r1 r2 by blast
qed

text \<open>
  Counterexample to C3 as stated: the caller clears both vertical flags and registers no
  callback. The resolver takes the top-side branch (it is the minimum and \<^verbatim>\<open>dy > 0\<close>), yet
  the player's state key is still \<^verbatim>\<open>AIR\<close> after the call.
\<close>

theorem pushback_top_contact_flags_cleared:
  "min_overlap (top_contact 1) = top_overlap (top_contact 1) \<and>
   e_dy (other (top_contact 1)) > 0 \<and>
   map_option priv_state_key (other_machine (top_contact 1)) = Some AIR \<and>
   pushback_entity (default_args\<lparr>pushback_y_up := False, pushback_y_down := False\<rparr>)
      (top_contact 1) = (None, [], top_contact 1) \<and>
   map_option priv_state_key (other_machine (snd (snd (pushback_entity
      (default_args\<lparr>pushback_y_up := False, pushback_y_down := False\<rparr>) (top_contact 1)))))
     = Some AIR"
  by (simp add: pushback_entity_def Let_def call_on_hit_def call_opt_def overlap_defs
      example_defs)

text \<open>
  C6. When one side's overlap is strictly smaller than the other three and the partner's
  velocity does not have the sign that side requires (left: \<^verbatim>\<open>dx > 0\<close>; right: \<^verbatim>\<open>dx < 0\<close>;
  bottom: \<^verbatim>\<open>dy < 0\<close>; top: \<^verbatim>\<open>dy > 0\<close>), \<^verbatim>\<open>pushback_entity\<close> changes nothing, raises nothing
  and invokes no callback, whatever the flags and the registered callbacks.
\<close>

theorem pushback_sign_mismatch_noop:
  "(left_overlap wd < right_overlap wd \<and> left_overlap wd < top_overlap wd \<and>
      left_overlap wd < bottom_overlap wd \<and> \<not> e_dx (other wd) > 0) \<or>
   (right_overlap wd < left_overlap wd \<and> right_overlap wd < top_overlap wd \<and>
      right_overlap wd < bottom_overlap wd \<and> \<not> e_dx (other wd) < 0) \<or>
   (bottom_overlap wd < left_overlap wd \<and> bottom_overlap wd < right_overlap wd \<and>
      bottom_overlap wd < top_overlap wd \<and> \<not> e_dy (other wd) < 0) \<or>
   (top_overlap wd < left_overlap wd \<and> top_overlap wd < right_overlap wd \<and>
      top_overlap wd < bottom_overlap wd \<and> \<not> e_dy (other wd) > 0) \<Longrightarrow>
   pushback_entity args wd = (None, [], wd)"
  unfolding pushback_entity_def min_overlap_def Let_def
  by (elim disjE conjE) (simp_all add: min_def)

text \<open>
  Witness: the player touches the block's left side while moving left, and the
  platform's top while moving up; every callback is registered and none is invoked.
\<close>

theorem pushback_sign_mismatch_noop_witness:
  "(left_overlap (left_contact (- 1)) < right_overlap (left_contact (- 1)) \<and>
    left_overlap (left_contact (- 1)) < top_overlap (left_contact (- 1)) \<and>
    left_overlap (left_contact (- 1)) < bottom_overlap (left_contact (- 1)) \<and>
    \<not> e_dx (other (left_contact (- 1))) > 0) \<and>
   pushback_entity
     (default_args\<lparr>on_hit := Some count_hit, on_hit_below := Some count_hit,
        on_hit_above := Some count_hit, on_hit_left := Some count_hit,
        on_hit_right := Some count_hit\<rparr>) (left_contact (- 1))
     = (None, [], left_contact (- 1)) \<and>
   (top_overlap (top_contact (- 1)) < left_overlap (top_contact (- 1)) \<and>
    top_overlap (top_contact (- 1)) < right_overlap (top_contact (- 1)) \<and>
    top_overlap (top_contact (- 1)) < bottom_overlap (top_contact (- 1)) \<and>
    \<not> e_dy (other (top_contact (- 1))) > 0) \<and>
   pushback_entity
     (default_args\<lparr>on_hit := Some count_hit, on_hit_below := Some count_hit,
        on_hit_above := Some count_hit, on_hit_left := Some count_hit,
        on_hit_right := Some count_hit\<rparr>) (top_contact (- 1))
     = (None, [], top_contact (- 1))"
proof -
  have l: "left_overlap (left_contact (- 1)) < right_overlap (left_contact (- 1)) \<and>
    left_overlap (left_contact (- 1)) < top_overlap (left_contact (- 1)) \<and>
    left_overlap (left_contact (- 1)) < bottom_overlap (left_contact (- 1)) \<and>
    \<not> e_dx (other (left_contact (- 1))) > 0"
    by (simp add: overlap_defs example_defs)
  have t: "top_overlap (top_contact (- 1)) < left_overlap (top_contact (- 1)) \<and>
    top_overlap (top_contact (- 1)) < right_overlap (top_contact (- 1)) \<and>
    top_overlap (top_contact (- 1)) < bottom_overlap (top_contact (- 1)) \<and>
    \<not> e_dy (other (top_contact (- 1))) > 0"
    by (simp add: overlap_defs example_defs)
  note r1 = pushback_sign_mismatch_noop[OF disjI1, OF l]
  note r2 = pushback_sign_mismatch_noop[OF disjI2, OF disjI2, OF disjI2, OF t]
  show ?thesis using l t r1 r2 by blast
qed

subsection \<open>cleanup_entities\<close>

text \<open>
  C4. The claim is that after the cleanup pass no entity with a false liveness flag is
  left in a collection, also when several entities are dead. The loop removes from the
  list it walks: after a removal the next element moves into the freed position and the
  index steps over it. With two dead entities next to each other the second one stays in
  the collection, still dead.
\<close>

theorem cleanup_entities_skips_after_removal:
  "\<not> is_alive (all_dead 1) \<and> \<not> is_alive (all_dead 2) \<and>
   cleanup_entities all_dead [1, 2] = [2] \<and>
   cleanup_entities all_dead [1, 2, 3, 4, 5] = [2, 4] \<and>
   (\<exists>r \<in> set (cleanup_entities all_dead [1, 2]). \<not> is_alive (all_dead r))"
  by (simp add: cleanup_entities_def cleanup_loop.simps all_dead_def new_Entity_def)

subsection \<open>StateMachine.state_key\<close>

text \<open>
  C7. For a machine whose current key is a key of its state map, and for any hooks:
  assigning the current key changes nothing and runs no hook; assigning a key that is
  not in the state map raises ValueError, runs no hook and leaves the machine (key and
  state) and everything else unchanged; and after any assignment, raising or not, the
  current key is a key of the state map, which the assignment does not change.
\<close>

theorem state_key_assignment:
  "priv_state_key m \<in> dom (state_map m) \<Longrightarrow>
   state_key_setter on_exit on_enter (priv_state_key m) (m, wd) = (None, [], (m, wd)) \<and>
   (k \<notin> dom (state_map m) \<longrightarrow>
      state_key_setter on_exit on_enter k (m, wd) = (Some ValueError, [], (m, wd))) \<and>
   (case state_key_setter on_exit on_enter k' (m, wd) of
      (e, hooks, (m', wd')) \<Rightarrow>
        priv_state_key m' \<in> dom (state_map m') \<and> state_map m' = state_map m)"
  by (auto simp: state_key_setter_def split: option.splits prod.splits)

text \<open>
  Witness: a grounded machine with the states of \<^verbatim>\<open>GROUND\<close> and \<^verbatim>\<open>AIR\<close> only, assigned
  \<^verbatim>\<open>GROUND\<close> (its key), \<^verbatim>\<open>DEAD\<close> (unknown) and \<^verbatim>\<open>AIR\<close>.
\<close>

theorem state_key_assignment_witness:
  "priv_state_key two_state_machine \<in> dom (state_map two_state_machine) \<and>
   DEAD \<notin> dom (state_map two_state_machine) \<and>
   state_key_setter Player_on_exit Player_on_enter GROUND (two_state_machine, left_contact 1)
     = (None, [], (two_state_machine, left_contact 1)) \<and>
   state_key_setter Player_on_exit Player_on_enter DEAD (two_state_machine, left_contact 1)
     = (Some ValueError, [], (two_state_machine, left_contact 1)) \<and>
   (case state_key_setter Player_on_exit Player_on_enter AIR (two_state_machine, left_contact 1) of
      (e, hooks, (m', wd')) \<Rightarrow>
        priv_state_key m' \<in> dom (state_map m') \<and> state_map m' = state_map two_state_machine) \<and>
   priv_state_key (fst (snd (snd (state_key_setter Player_on_exit Player_on_enter AIR
      (two_state_machine, left_contact 1))))) = AIR"
proof -
  have v: "priv_state_key two_state_machine \<in> dom (state_map two_state_machine)"
    by (simp add: two_state_machine_def)
  have u: "DEAD \<notin> dom (state_map two_state_machine)"
    by (simp add: two_state_machine_def)
  have g: "priv_state_key two_state_machine = GROUND"
    by (simp add: two_state_machine_def)
  have air: "priv_state_key (fst (snd (snd (state_key_setter Player_on_exit Player_on_enter AIR
      (two_state_machine, left_contact 1))))) = AIR"
    by (simp add: state_key_setter_def Player_on_exit_def Player_on_enter_def State_on_exit_def
        State_on_enter_def two_state_machine_def set_parent_def fresh_state_def)
  note t = state_key_assignment[OF v, of Player_on_exit Player_on_enter "left_contact 1" DEAD AIR]
  note t1 = t[THEN conjunct1, unfolded g]
  note t2 = t[THEN conjunct2, THEN conjunct1, THEN mp, OF u]
  note t3 = t[THEN conjunct2, THEN conjunct2]
  show ?thesis using v u t1 t2 t3 air by (intro conjI)
qed

text \<open>
  C10. Reading the property \<^verbatim>\<open>state_key\<close> raises AttributeError for every machine,
  whatever its map, key and state: the key cannot be observed through the property.
\<close>

theorem state_key_read_raises:
  "state_key_getter m = Inl AttributeError"
  by (simp add: state_key_getter_def)

subsection \<open>check_vertical_tile_collision\<close>




subsection \<open>Camera.update\<close>

text \<open>
  C9 (as amended). After \<^verbatim>\<open>Camera.update\<close> with a target, the camera's \<^verbatim>\<open>x\<close> is
  \<^verbatim>\<open>target.x + xoff\<close> clamped from below by 0 and then from above by
  \<^verbatim>\<open>SCROLL_BORDER_X - w\<close>: it never exceeds \<^verbatim>\<open>SCROLL_BORDER_X - w\<close>, it equals that bound
  when \<^verbatim>\<open>target.x + xoff\<close> reaches it, and it is at least 0 when the viewport is not wider
  than the world. The camera's \<^verbatim>\<open>y\<close> exceeds neither 0 nor \<^verbatim>\<open>SCROLL_BORDER_Y - h\<close>, and it is
  at least 0 when the viewport is not taller than the world.
\<close>

theorem camera_update_bounds:
  "target c = Some t \<Longrightarrow>
   c_x (Camera_update c) = min (real_of_int SCROLL_BORDER_X - c_w c) (max 0 (e_x t + xoff c)) \<and>
   c_x (Camera_update c) \<le> real_of_int SCROLL_BORDER_X - c_w c \<and>
   (c_w c \<le> real_of_int SCROLL_BORDER_X \<longrightarrow> 0 \<le> c_x (Camera_update c)) \<and>
   (real_of_int SCROLL_BORDER_X - c_w c \<le> e_x t + xoff c \<longrightarrow>
      c_x (Camera_update c) = real_of_int SCROLL_BORDER_X - c_w c) \<and>
   c_y (Camera_update c) \<le> real_of_int SCROLL_BORDER_Y - c_h c \<and>
   c_y (Camera_update c) \<le> 0 \<and>
   (c_h c \<le> real_of_int SCROLL_BORDER_Y \<longrightarrow> 0 \<le> c_y (Camera_update c))"
  by (auto simp: Camera_update_def Let_def)

text \<open>
  Witness: the camera of the application on a player at the right end of the world, and
  a camera of height 100 on the player at its start position.
\<close>

theorem camera_update_bounds_witness:
  "target (camera_on 240 1900 56) = Some (new_MovableEntity 1900 56 6 8) \<and>
   c_w (camera_on 240 1900 56) \<le> real_of_int SCROLL_BORDER_X \<and>
   real_of_int SCROLL_BORDER_X - c_w (camera_on 240 1900 56)
     \<le> e_x (new_MovableEntity 1900 56 6 8) + xoff (camera_on 240 1900 56) \<and>
   c_x (Camera_update (camera_on 240 1900 56)) = 1664 \<and>
   target (camera_on 100 40 56) = Some (new_MovableEntity 40 56 6 8) \<and>
   c_h (camera_on 100 40 56) \<le> real_of_int SCROLL_BORDER_Y \<and>
   0 \<le> c_y (Camera_update (camera_on 100 40 56)) \<and>
   c_y (Camera_update (camera_on 100 40 56)) \<le> 0"
proof -
  have t1: "target (camera_on 240 1900 56) = Some (new_MovableEntity 1900 56 6 8)"
    and t2: "target (camera_on 100 40 56) = Some (new_MovableEntity 40 56 6 8)"
    by (simp_all add: camera_on_def)
  have w: "c_w (camera_on 240 1900 56) \<le> real_of_int SCROLL_BORDER_X"
    and pin: "real_of_int SCROLL_BORDER_X - c_w (camera_on 240 1900 56)
                \<le> e_x (new_MovableEntity 1900 56 6 8) + xoff (camera_on 240 1900 56)"
    and h: "c_h (camera_on 100 40 56) \<le> real_of_int SCROLL_BORDER_Y"
    by (simp_all add: camera_on_def new_Camera_def new_MovableEntity_def SCROLL_BORDER_X_def
        SCROLL_BORDER_Y_def TILE_SIZE_def SCREEN_WIDTH_def SCREEN_HEIGHT_def)
  have v: "real_of_int SCROLL_BORDER_X - c_w (camera_on 240 1900 56) = 1664"
    by (simp add: camera_on_def new_Camera_def SCROLL_BORDER_X_def TILE_SIZE_def SCREEN_WIDTH_def)
  note r1 = camera_update_bounds[OF t1]
  note r2 = camera_update_bounds[OF t2]
  have "c_x (Camera_update (camera_on 240 1900 56)) = 1664"
    using r1 pin v by simp
  moreover have "0 \<le> c_y (Camera_update (camera_on 100 40 56))"
    using r2 h by blast
  moreover have "c_y (Camera_update (camera_on 100 40 56)) \<le> 0"
    using r2 by blast
  ultimately show ?thesis using t1 t2 w pin h by blast
qed

text \<open>
  Counterexample to C9 as stated: the camera of the application (256 by 240) on a player
  at (1700, 56). The player is beyond \<^verbatim>\<open>SCROLL_BORDER_X - w = 1664\<close>, yet the camera's
  \<^verbatim>\<open>x\<close> is 1572, not pinned; the camera's \<^verbatim>\<open>y\<close> is -112, below 0 and different from
  \<^verbatim>\<open>min(0, target.y + yoff) = -64\<close>.
\<close>

theorem camera_update_leaves_range:
  "target (camera_on 240 1700 56) = Some (new_MovableEntity 1700 56 6 8) \<and>
   real_of_int SCROLL_BORDER_X - c_w (camera_on 240 1700 56) = 1664 \<and>
   c_x (Camera_update (camera_on 240 1700 56)) = 1572 \<and>
   c_y (Camera_update (camera_on 240 1700 56)) = - 112 \<and>
   \<not> 0 \<le> c_y (Camera_update (camera_on 240 1700 56)) \<and>
   min 0 (56 + yoff (camera_on 240 1700 56)) = - 64 \<and>
   c_y (Camera_update (camera_on 240 1700 56)) \<noteq> min 0 (56 + yoff (camera_on 240 1700 56))"
  by (simp add: Camera_update_def camera_on_def new_Camera_def new_MovableEntity_def
      SCROLL_BORDER_X_def SCROLL_BORDER_Y_def TILE_SIZE_def SCREEN_WIDTH_def SCREEN_HEIGHT_def
      Let_def)

end
